theory Spec2Isabelle
  imports Complex_Main "HOL-Library.Monad_Syntax" "HOL-Library.Word"
begin

section \<open>Values read from the export files\<close>

text \<open>
  \<^verbatim>\<open>json.load\<close> returns Python values: \<^verbatim>\<open>None\<close>, booleans, numbers, strings, lists and
  dictionaries. A dictionary is kept as the list of its items, in insertion order (the keys
  of a Python dictionary are distinct). Python keeps the two kinds of JSON number apart: an
  integer literal is an \<^verbatim>\<open>int\<close>, which is unbounded, and any other number is a
  \<^verbatim>\<open>float\<close>. A float is an exact real here: the rounding of 64-bit floats is outside
  this development.
\<close>

datatype json =
    JNull
  | JBool bool
  | JInt int
  | JFloat real
  | JStr string
  | JArr "json list"
  | JObj "(string \<times> json) list"

text \<open>Python truthiness, as used by \<^verbatim>\<open>if x\<close>, \<^verbatim>\<open>x and y\<close> and \<^verbatim>\<open>any\<close>.\<close>

fun truthy :: "json \<Rightarrow> bool" where
  "truthy JNull = False"
| "truthy (JBool b) = b"
| "truthy (JInt i) = (i \<noteq> 0)"
| "truthy (JFloat r) = (r \<noteq> 0)"
| "truthy (JStr s) = (s \<noteq> [])"
| "truthy (JArr xs) = (xs \<noteq> [])"
| "truthy (JObj kvs) = (kvs \<noteq> [])"

text \<open>
  \<^verbatim>\<open>d.get(k, default)\<close>: only a dictionary has the method; on any other value the call
  raises AttributeError, which is \<open>None\<close> here. A key that is present with the value
  \<^verbatim>\<open>None\<close> yields \<open>JNull\<close>, not the default.
\<close>

fun py_get :: "json \<Rightarrow> string \<Rightarrow> json \<Rightarrow> json option" where
  "py_get (JObj kvs) k d = Some (case map_of kvs k of Some v \<Rightarrow> v | None \<Rightarrow> d)"
| "py_get _ _ _ = None"

text \<open>\<^verbatim>\<open>d.values()\<close>, again a method of dictionaries only.\<close>

fun py_values :: "json \<Rightarrow> json list option" where
  "py_values (JObj kvs) = Some (map snd kvs)"
| "py_values _ = None"

definition py_any :: "json list \<Rightarrow> bool" where
  "py_any vs = list_ex truthy vs"

text \<open>
  \<^verbatim>\<open>for x in v\<close>: a list yields its elements, a dictionary its keys, a string its
  characters; \<^verbatim>\<open>None\<close>, booleans and numbers are not iterable (TypeError).
\<close>

fun py_iter :: "json \<Rightarrow> json list option" where
  "py_iter (JArr xs) = Some xs"
| "py_iter (JObj kvs) = Some (map (\<lambda>kv. JStr (fst kv)) kvs)"
| "py_iter (JStr s) = Some (map (\<lambda>c. JStr [c]) s)"
| "py_iter _ = None"

text \<open>\<^verbatim>\<open>file_path.replace('.json', '')\<close>: every occurrence is removed, left to right.\<close>

fun replace_json :: "string \<Rightarrow> string" where
  "replace_json [] = []"
| "replace_json (c # cs) =
     (if take 5 (c # cs) = ''.json'' then replace_json (drop 4 cs) else c # replace_json cs)"

section \<open>The Loader: flattening the exports (lines 136 to 220)\<close>

text \<open>
  One dictionary appended to \<^verbatim>\<open>all_data\<close>. The cells hold whatever the export holds, so
  the record is parametric in the type of the five count cells: \<open>json flat_record\<close> is the
  dictionary built by the loop, \<open>int64 flat_record\<close> a row of the table of int64 columns.
\<close>

record 'c flat_record =
  project :: json
  language :: json
  language_code :: json
  method_name :: string
  approved_without_edit :: 'c
  post_edited_0_5 :: 'c
  post_edited_6_10 :: 'c
  post_edited_11_15 :: 'c
  post_edited_other :: 'c
  weighted_units :: json
  temporal_data :: json
  date_from :: json
  date_to :: json

text \<open>
  The source repeats one block three times, for the keys \<^verbatim>\<open>ai\<close>, \<^verbatim>\<open>mt\<close> and \<^verbatim>\<open>tm\<close>
  and the labels AI, MT and TM; \<open>method_block\<close> is that block, with key and label as
  arguments. It returns the rows the block appends (none or one), or \<open>None\<close> when a call in
  the block raises. The three \<^verbatim>\<open>get\<close> calls before the \<^verbatim>\<open>if\<close> run first; the cells of
  the dictionary literal are evaluated in the order written, \<^verbatim>\<open>date_range.get\<close> last.
\<close>

definition method_block ::
  "json \<Rightarrow> json \<Rightarrow> json \<Rightarrow> json \<Rightarrow> json \<Rightarrow> string \<Rightarrow> string \<Rightarrow> json flat_record list option"
where
  "method_block project_name date_range lang_name lang_code lang_data key label =
     do {
       m_data \<leftarrow> py_get lang_data key (JObj []);
       cumulative \<leftarrow> py_get m_data ''cumulativeStatistics'' (JObj []);
       temporal \<leftarrow> py_get m_data ''temporalStatistics'' (JObj []);
       if truthy cumulative then
         do {
           vs \<leftarrow> py_values cumulative;
           if py_any vs then
             do {
               a \<leftarrow> py_get cumulative ''approvedWithoutEdit'' (JInt 0);
               pe \<leftarrow> py_get cumulative ''postEdited'' (JObj []);
               p1 \<leftarrow> py_get pe ''0-5'' (JInt 0);
               p2 \<leftarrow> py_get pe ''6-10'' (JInt 0);
               p3 \<leftarrow> py_get pe ''11-15'' (JInt 0);
               p4 \<leftarrow> py_get pe ''other'' (JInt 0);
               w \<leftarrow> py_get cumulative ''weightedUnits'' (JInt 0);
               d_from \<leftarrow> py_get date_range ''from'' JNull;
               d_to \<leftarrow> py_get date_range ''to'' JNull;
               Some [\<lparr> project = project_name, language = lang_name,
                       language_code = lang_code, method_name = label,
                       approved_without_edit = a, post_edited_0_5 = p1,
                       post_edited_6_10 = p2, post_edited_11_15 = p3,
                       post_edited_other = p4, weighted_units = w,
                       temporal_data = temporal, date_from = d_from, date_to = d_to \<rparr>]
             }
           else Some []
         }
       else Some []
     }"

text \<open>
  The body of \<^verbatim>\<open>for lang_data in ...\<close>. The state is \<^verbatim>\<open>all_data\<close>; the result is the
  new \<^verbatim>\<open>all_data\<close> and whether the body ran to its end. Rows appended before an
  exception stay in the list.
\<close>

definition language_block ::
  "json \<Rightarrow> json \<Rightarrow> json flat_record list \<Rightarrow> json \<Rightarrow> json flat_record list \<times> bool"
where
  "language_block project_name date_range all_data lang_data =
     (case do {
             language \<leftarrow> py_get lang_data ''language'' (JObj []);
             lang_name \<leftarrow> py_get language ''name'' (JStr ''Unknown'');
             lang_code \<leftarrow> py_get language ''code'' (JStr ''unknown'');
             Some (lang_name, lang_code)
           } of
        None \<Rightarrow> (all_data, False)
      | Some (lang_name, lang_code) \<Rightarrow>
          (case method_block project_name date_range lang_name lang_code lang_data ''ai'' ''AI'' of
             None \<Rightarrow> (all_data, False)
           | Some ai \<Rightarrow>
               (case method_block project_name date_range lang_name lang_code lang_data ''mt'' ''MT'' of
                  None \<Rightarrow> (all_data @ ai, False)
                | Some mt \<Rightarrow>
                    (case method_block project_name date_range lang_name lang_code lang_data ''tm'' ''TM'' of
                       None \<Rightarrow> (all_data @ ai @ mt, False)
                     | Some tm \<Rightarrow> (all_data @ ai @ mt @ tm, True)))))"

fun language_loop ::
  "json \<Rightarrow> json \<Rightarrow> json flat_record list \<Rightarrow> json list \<Rightarrow> json flat_record list \<times> bool"
where
  "language_loop project_name date_range all_data [] = (all_data, True)"
| "language_loop project_name date_range all_data (lang_data # rest) =
     (case language_block project_name date_range all_data lang_data of
        (all_data', True) \<Rightarrow> language_loop project_name date_range all_data' rest
      | (all_data', False) \<Rightarrow> (all_data', False))"

text \<open>
  What the user is shown: \<^verbatim>\<open>st.error(text)\<close> and \<^verbatim>\<open>st.warning(...)\<close>. A warning names the
  file; the text of the exception, which the source adds to it, is not modelled.
\<close>

datatype st_msg = St_error string | St_warning string

text \<open>
  An input file is its path, as \<^verbatim>\<open>glob.glob\<close> lists it, and the outcome of opening and
  parsing it: \<open>None\<close> when \<^verbatim>\<open>open\<close> or \<^verbatim>\<open>json.load\<close> raises. The state of the loop over the
  files is \<^verbatim>\<open>all_data\<close> and the messages shown so far; the \<^verbatim>\<open>except\<close> clause turns every
  exception of the body into one warning and goes on with the next file.
\<close>

type_synonym export_file = "string \<times> json option"

definition process_file ::
  "json flat_record list \<times> st_msg list \<Rightarrow> export_file \<Rightarrow> json flat_record list \<times> st_msg list"
where
  "process_file st file =
     (case st of (all_data, msgs) \<Rightarrow>
      (case file of (file_path, content) \<Rightarrow>
       (case do {
               data \<leftarrow> content;
               project_name \<leftarrow> py_get data ''name'' (JStr (replace_json file_path));
               date_range \<leftarrow> py_get data ''dateRange'' (JObj []);
               langs \<leftarrow> py_get data ''data'' (JArr []);
               items \<leftarrow> py_iter langs;
               Some (project_name, date_range, items)
             } of
          None \<Rightarrow> (all_data, msgs @ [St_warning file_path])
        | Some (project_name, date_range, items) \<Rightarrow>
            (case language_loop project_name date_range all_data items of
               (all_data', True) \<Rightarrow> (all_data', msgs)
             | (all_data', False) \<Rightarrow> (all_data', msgs @ [St_warning file_path])))))"

fun file_loop ::
  "json flat_record list \<times> st_msg list \<Rightarrow> export_file list \<Rightarrow> json flat_record list \<times> st_msg list"
where
  "file_loop st [] = st"
| "file_loop st (file # rest) = file_loop (process_file st file) rest"

section \<open>The table of int64 columns and the Metric Deriver (lines 222 to 261)\<close>

text \<open>
  \<^verbatim>\<open>pd.DataFrame(all_data)\<close> builds the columns. A column whose cells are all Python
  integers between \<open>- 2^63\<close> and \<open>2^63 - 1\<close> becomes an int64 column: its sums and its
  products with an integer wrap around silently, modulo \<open>2^64\<close>, and a comparison reads
  the cell as a signed number. An int64 cell is a \<open>64 word\<close>; \<open>+\<close> and \<open>*\<close> on words wrap
  and \<open>sint\<close> is the signed value. The arithmetic on a column is the arithmetic on each of
  its rows.

  The model follows the tables whose five count columns are int64 columns, the counts of
  the export format being integers. Any other cell decides the type of its whole column:
  a float or \<^verbatim>\<open>None\<close> makes it a float64 column, an integer out of range an unsigned or an
  object column, a boolean an object column; on a string, a list or a dictionary the
  arithmetic raises TypeError. None of these is followed: \<open>frame\<close> is \<open>None\<close> for such a
  table.
\<close>

type_synonym int64 = "64 word"

fun int_cell :: "json \<Rightarrow> int64 option" where
  "int_cell (JInt i) = (if - (2 ^ 63) \<le> i \<and> i < 2 ^ 63 then Some (word_of_int i) else None)"
| "int_cell _ = None"

definition frame_row :: "json flat_record \<Rightarrow> int64 flat_record option" where
  "frame_row r =
     do {
       a \<leftarrow> int_cell (approved_without_edit r);
       p1 \<leftarrow> int_cell (post_edited_0_5 r);
       p2 \<leftarrow> int_cell (post_edited_6_10 r);
       p3 \<leftarrow> int_cell (post_edited_11_15 r);
       p4 \<leftarrow> int_cell (post_edited_other r);
       Some \<lparr> project = project r, language = language r,
              language_code = language_code r, method_name = method_name r,
              approved_without_edit = a, post_edited_0_5 = p1,
              post_edited_6_10 = p2, post_edited_11_15 = p3,
              post_edited_other = p4, weighted_units = weighted_units r,
              temporal_data = temporal_data r, date_from = date_from r,
              date_to = date_to r \<rparr>
     }"

definition frame :: "json flat_record list \<Rightarrow> int64 flat_record list option" where
  "frame all_data = those (map frame_row all_data)"

text \<open>
  \<^verbatim>\<open>/\<close> on two int64 columns is true division: both cells are read as signed numbers and
  the quotient is a float. \<open>to_float\<close> is that reading, exact here as every float is.
\<close>

definition to_float :: "int64 \<Rightarrow> real" where
  "to_float x = real_of_int (sint x)"

text \<open>
  A float column can hold more than numbers. Dividing a column by a column that holds zero
  raises nothing in numpy: the cell becomes infinite, or NaN for \<^verbatim>\<open>0/0\<close>. Only
  \<^verbatim>\<open>risk_score\<close> keeps such a cell, so only it has this type.
\<close>

datatype npfloat = Fin real | PInf | NInf | NaN

definition np_div :: "real \<Rightarrow> real \<Rightarrow> npfloat" where
  "np_div x y =
     (if y \<noteq> 0 then Fin (x / y)
      else if 0 < x then PInf else if x < 0 then NInf else NaN)"

fun np_mul :: "npfloat \<Rightarrow> real \<Rightarrow> npfloat" where
  "np_mul (Fin x) k = Fin (x * k)"
| "np_mul PInf k = (if 0 < k then PInf else if k < 0 then NInf else NaN)"
| "np_mul NInf k = (if 0 < k then NInf else if k < 0 then PInf else NaN)"
| "np_mul NaN k = NaN"

fun np_add :: "npfloat \<Rightarrow> npfloat \<Rightarrow> npfloat" where
  "np_add (Fin x) (Fin y) = Fin (x + y)"
| "np_add NaN _ = NaN"
| "np_add _ NaN = NaN"
| "np_add PInf NInf = NaN"
| "np_add NInf PInf = NaN"
| "np_add PInf _ = PInf"
| "np_add _ PInf = PInf"
| "np_add NInf _ = NInf"
| "np_add _ NInf = NInf"

fun is_fin :: "npfloat \<Rightarrow> bool" where
  "is_fin (Fin x) = True"
| "is_fin _ = False"

record df_row = "int64 flat_record" +
  total_strings :: int64
  total_post_edited :: int64
  approval_rate :: real
  human_intervention_rate :: real
  critical_edit_rate :: real
  minor_edit_rate :: real
  quality_score :: real
  risk_score :: npfloat

text \<open>
  Lines 229 to 259 on one row. The two totals and the weighted sum of \<^verbatim>\<open>quality_score\<close>
  are int64 arithmetic and wrap; the test \<^verbatim>\<open>total_strings > 0\<close> is on the signed value;
  every division yields a float, and what follows a division is float arithmetic.
  \<^verbatim>\<open>np.where(c, x, 0)\<close> keeps \<open>x\<close> where \<open>c\<close> holds and puts 0 elsewhere, whatever the
  division produced there.
\<close>

definition derive_metrics :: "int64 flat_record \<Rightarrow> df_row" where
  "derive_metrics r =
     (let
        total_strings = approved_without_edit r + post_edited_0_5 r +
                        post_edited_6_10 r + post_edited_11_15 r + post_edited_other r;
        total_post_edited = post_edited_0_5 r + post_edited_6_10 r +
                            post_edited_11_15 r + post_edited_other r;
        approval_rate =
          (if 0 < sint total_strings
           then (to_float (approved_without_edit r) / to_float total_strings) * 100 else 0);
        human_intervention_rate =
          (if 0 < sint total_strings
           then (to_float total_post_edited / to_float total_strings) * 100 else 0);
        critical_edit_rate =
          (if 0 < sint total_strings
           then (to_float (post_edited_other r) / to_float total_strings) * 100 else 0);
        minor_edit_rate =
          (if 0 < sint total_strings
           then (to_float (post_edited_0_5 r) / to_float total_strings) * 100 else 0);
        quality_score =
          (if 0 < sint total_strings
           then to_float (approved_without_edit r * 100 +
                          post_edited_0_5 r * 95 +
                          post_edited_6_10 r * 85 +
                          post_edited_11_15 r * 70 +
                          post_edited_other r * 40) / to_float total_strings
           else 0);
        risk_score =
          np_add
            (np_add (Fin (critical_edit_rate * 3))
                    (np_mul (np_mul (np_div (to_float (post_edited_11_15 r))
                                            (to_float total_strings)) 100) 2))
            (np_mul (np_mul (np_div (to_float (post_edited_6_10 r))
                                    (to_float total_strings)) 100) 1)
      in \<lparr> project = project r, language = language r,
           language_code = language_code r, method_name = method_name r,
           approved_without_edit = approved_without_edit r,
           post_edited_0_5 = post_edited_0_5 r,
           post_edited_6_10 = post_edited_6_10 r,
           post_edited_11_15 = post_edited_11_15 r,
           post_edited_other = post_edited_other r,
           weighted_units = weighted_units r,
           temporal_data = temporal_data r, date_from = date_from r,
           date_to = date_to r,
           total_strings = total_strings, total_post_edited = total_post_edited,
           approval_rate = approval_rate,
           human_intervention_rate = human_intervention_rate,
           critical_edit_rate = critical_edit_rate, minor_edit_rate = minor_edit_rate,
           quality_score = quality_score, risk_score = risk_score \<rparr>)"

text \<open>
  The whole of \<^verbatim>\<open>load_crowdin_data\<close>. The source returns \<^verbatim>\<open>None\<close> after an
  \<^verbatim>\<open>st.error\<close> when there is no file or no row, and the table otherwise; \<open>Inl\<close> is a
  table the model does not follow.
\<close>

datatype load_error = Not_int64_counts

definition load_crowdin_data ::
  "export_file list \<Rightarrow> (load_error + df_row list option) \<times> st_msg list"
where
  "load_crowdin_data json_files =
     (if json_files = []
      then (Inr None, [St_error ''No JSON files found in the current directory!''])
      else
        (case file_loop ([], []) json_files of (all_data, msgs) \<Rightarrow>
           if all_data = []
           then (Inr None, msgs @ [St_error ''No valid data found in JSON files!''])
           else
             (case frame all_data of
                None \<Rightarrow> (Inl Not_int64_counts, msgs)
              | Some df \<Rightarrow> (Inr (Some (map derive_metrics df)), msgs))))"

section \<open>The Temporal Extractor (lines 263 to 299)\<close>

text \<open>
  Plain Python arithmetic on the cells of a day; its integers are unbounded, so nothing
  wraps here. A boolean counts as the integer 0 or 1. \<^verbatim>\<open>+\<close> on two integers is an
  integer, on an integer and a float or on two floats a float; it also joins two strings
  or two lists; every other pair raises TypeError. Comparing with 0 and dividing need
  numbers, and \<^verbatim>\<open>/\<close> is true division.
\<close>

fun py_int :: "json \<Rightarrow> int option" where
  "py_int (JInt i) = Some i"
| "py_int (JBool b) = Some (if b then 1 else 0)"
| "py_int _ = None"

fun py_num :: "json \<Rightarrow> real option" where
  "py_num (JInt i) = Some (real_of_int i)"
| "py_num (JFloat r) = Some r"
| "py_num (JBool b) = Some (if b then 1 else 0)"
| "py_num _ = None"

definition py_add :: "json \<Rightarrow> json \<Rightarrow> json option" where
  "py_add x y =
     (case (py_int x, py_int y) of
        (Some i, Some j) \<Rightarrow> Some (JInt (i + j))
      | _ \<Rightarrow>
          (case (py_num x, py_num y) of
             (Some a, Some b) \<Rightarrow> Some (JFloat (a + b))
           | _ \<Rightarrow>
               (case (x, y) of
                  (JStr s, JStr t) \<Rightarrow> Some (JStr (s @ t))
                | (JArr s, JArr t) \<Rightarrow> Some (JArr (s @ t))
                | _ \<Rightarrow> None)))"

definition py_gt0 :: "json \<Rightarrow> bool option" where
  "py_gt0 x = map_option (\<lambda>a. 0 < a) (py_num x)"

definition py_div :: "json \<Rightarrow> json \<Rightarrow> real option" where
  "py_div x y =
     (case (py_num x, py_num y) of
        (Some a, Some b) \<Rightarrow> (if b = 0 then None else Some (a / b))
      | _ \<Rightarrow> None)"

fun is_dict :: "json \<Rightarrow> bool" where
  "is_dict (JObj kvs) = True"
| "is_dict _ = False"

text \<open>\<^verbatim>\<open>d.items()\<close>; it is only called on a dictionary.\<close>

fun py_items :: "json \<Rightarrow> (string \<times> json) list" where
  "py_items (JObj kvs) = kvs"
| "py_items _ = []"

record 'd temporal_record =
  date :: 'd
  project_day :: json
  language_day :: json
  method_day :: string
  approved_without_edit_day :: json
  total_strings_day :: real
  approval_rate_day :: real
  intervention_rate_day :: real
  critical_edits :: json

text \<open>
  The body of the \<^verbatim>\<open>try\<close> for one entry of \<^verbatim>\<open>temporal_data\<close>. \<^verbatim>\<open>pd.to_datetime\<close> is
  the library's parser and a parameter here: \<open>None\<close> where it raises. The result is the
  record appended, or \<open>None\<close> when nothing is appended: an exception (the bare
  \<^verbatim>\<open>except\<close> goes on with the next entry) or a total that is not positive.
  \<open>total_strings_day\<close> is the value of the number \<^verbatim>\<open>total_day\<close>.
\<close>

definition day_record ::
  "(string \<Rightarrow> 'd option) \<Rightarrow> df_row \<Rightarrow> string \<Rightarrow> json \<Rightarrow> 'd temporal_record option"
where
  "day_record to_datetime row date_str stats =
     do {
       date_obj \<leftarrow> to_datetime date_str;
       a \<leftarrow> py_get stats ''approvedWithoutEdit'' (JInt 0);
       pe \<leftarrow> py_get stats ''postEdited'' (JObj []);
       p1 \<leftarrow> py_get pe ''0-5'' (JInt 0);
       p2 \<leftarrow> py_get pe ''6-10'' (JInt 0);
       p3 \<leftarrow> py_get pe ''11-15'' (JInt 0);
       p4 \<leftarrow> py_get pe ''other'' (JInt 0);
       s1 \<leftarrow> py_add a p1;
       s2 \<leftarrow> py_add s1 p2;
       s3 \<leftarrow> py_add s2 p3;
       total_day \<leftarrow> py_add s3 p4;
       positive \<leftarrow> py_gt0 total_day;
       if positive then
         do {
           q \<leftarrow> py_div a total_day;
           e1 \<leftarrow> py_add p1 p2;
           e2 \<leftarrow> py_add e1 p3;
           edited \<leftarrow> py_add e2 p4;
           q' \<leftarrow> py_div edited total_day;
           t \<leftarrow> py_num total_day;
           Some \<lparr> date = date_obj, project_day = project row,
                  language_day = language row, method_day = method_name row,
                  approved_without_edit_day = a, total_strings_day = t,
                  approval_rate_day = q * 100, intervention_rate_day = q' * 100,
                  critical_edits = p4 \<rparr>
         }
       else None
     }"

fun entry_loop ::
  "(string \<Rightarrow> 'd option) \<Rightarrow> df_row \<Rightarrow> 'd temporal_record list \<Rightarrow> (string \<times> json) list
     \<Rightarrow> 'd temporal_record list"
where
  "entry_loop to_datetime row temporal_records [] = temporal_records"
| "entry_loop to_datetime row temporal_records ((date_str, stats) # rest) =
     entry_loop to_datetime row
       (case day_record to_datetime row date_str stats of
          Some r \<Rightarrow> temporal_records @ [r]
        | None \<Rightarrow> temporal_records)
       rest"

fun row_loop ::
  "(string \<Rightarrow> 'd option) \<Rightarrow> 'd temporal_record list \<Rightarrow> df_row list \<Rightarrow> 'd temporal_record list"
where
  "row_loop to_datetime temporal_records [] = temporal_records"
| "row_loop to_datetime temporal_records (row # rest) =
     row_loop to_datetime
       (if truthy (temporal_data row) \<and> is_dict (temporal_data row)
        then entry_loop to_datetime row temporal_records (py_items (temporal_data row))
        else temporal_records)
       rest"

text \<open>The empty list is the empty table \<^verbatim>\<open>pd.DataFrame()\<close>.\<close>

definition create_temporal_data ::
  "(string \<Rightarrow> 'd option) \<Rightarrow> df_row list \<Rightarrow> 'd temporal_record list"
where
  "create_temporal_data to_datetime df = row_loop to_datetime [] df"

section \<open>Example inputs\<close>

text \<open>A block of statistics in the shape of the export format.\<close>

definition method_stats :: "int \<Rightarrow> int \<Rightarrow> int \<Rightarrow> int \<Rightarrow> int \<Rightarrow> json" where
  "method_stats a b c d e =
     JObj [(''approvedWithoutEdit'', JInt a),
           (''postEdited'', JObj [(''0-5'', JInt b), (''6-10'', JInt c),
                                  (''11-15'', JInt d), (''other'', JInt e)]),
           (''weightedUnits'', JInt 0)]"

text \<open>An export with one language and one method, whose cumulative block is the argument.\<close>

definition example_export :: "json \<Rightarrow> json" where
  "example_export cumulative =
     JObj [(''name'', JStr ''docs''),
           (''data'',
            JArr [JObj [(''language'', JObj [(''name'', JStr ''German''), (''code'', JStr ''de'')]),
                        (''ai'', JObj [(''cumulativeStatistics'', cumulative)])]])]"

definition counts_row ::
  "int64 \<Rightarrow> int64 \<Rightarrow> int64 \<Rightarrow> int64 \<Rightarrow> int64 \<Rightarrow> json \<Rightarrow> int64 flat_record"
where
  "counts_row a b c d e temporal =
     \<lparr> project = JStr ''docs'', language = JStr ''German'',
       language_code = JStr ''de'', method_name = ''AI'',
       approved_without_edit = a, post_edited_0_5 = b,
       post_edited_6_10 = c, post_edited_11_15 = d,
       post_edited_other = e, weighted_units = JInt 0,
       temporal_data = temporal, date_from = JNull, date_to = JNull \<rparr>"

definition example_row :: "int64 flat_record" where
  "example_row = counts_row 80 10 5 3 2 (JObj [])"

definition zero_row :: "int64 flat_record" where
  "zero_row = counts_row 0 0 0 0 0 (JObj [])"

text \<open>
  Rows with counts that are non-negative int64 values, and large enough for the column
  arithmetic to wrap: in \<open>huge_row\<close> the product \<open>approved_without_edit * 100\<close> is
  \<open>10^19\<close>, which wraps to \<open>10^19 - 2^64\<close>; in \<open>wrapped_total_row\<close> the sum of the counts
  is \<open>19 * 10^18\<close>, which wraps to \<open>19 * 10^18 - 2^64\<close>.
\<close>

definition huge_row :: "int64 flat_record" where
  "huge_row = counts_row 100000000000000000 0 0 0 0 (JObj [])"

definition wrapped_total_row :: "int64 flat_record" where
  "wrapped_total_row =
     counts_row 9000000000000000000 9000000000000000000 1000000000000000000 0 0 (JObj [])"

text \<open>A stand-in for the date parser: it accepts the shape \<^verbatim>\<open>YYYY-MM-DD\<close> only.\<close>

definition example_to_datetime :: "string \<Rightarrow> string option" where
  "example_to_datetime s =
     (if length s = 10 \<and> s ! 4 = CHR ''-'' \<and> s ! 7 = CHR ''-'' then Some s else None)"

text \<open>A row with three days: a usable one, one with a bad date, one with no strings.\<close>

definition temporal_row :: df_row where
  "temporal_row =
     derive_metrics
       (counts_row 8 1 0 0 1
          (JObj [(''2024-01-15'', method_stats 8 1 0 0 1),
                 (''yesterday'', method_stats 2 0 0 0 0),
                 (''2024-01-16'', method_stats 0 0 0 0 0)]))"

definition unusable_row :: df_row where
  "unusable_row =
     derive_metrics
       (counts_row 2 0 0 0 0
          (JObj [(''yesterday'', method_stats 2 0 0 0 0),
                 (''2024-01-16'', method_stats 0 0 0 0 0)]))"

section \<open>Facts about the loops\<close>

lemma process_file_msgs:
  "process_file (rows, msgs) f =
     (fst (process_file (rows, []) f), msgs @ snd (process_file (rows, []) f))"
  by (auto simp: process_file_def split: prod.splits option.splits bool.splits)

lemma file_loop_msgs:
  "file_loop (rows, msgs) fs =
     (fst (file_loop (rows, []) fs), msgs @ snd (file_loop (rows, []) fs))"
proof (induction fs arbitrary: rows msgs)
  case Nil
  show ?case by simp
next
  case (Cons f fs)
  obtain rows' msgs' where p: "process_file (rows, []) f = (rows', msgs')"
    by (cases "process_file (rows, []) f")
  have q: "process_file (rows, msgs) f = (rows', msgs @ msgs')"
    using process_file_msgs[of rows msgs f] p by simp
  show ?case
    using Cons[of rows' "msgs @ msgs'"] Cons[of rows' msgs'] by (simp add: p q)
qed

lemma file_loop_append: "file_loop st (fs1 @ fs2) = file_loop (file_loop st fs1) fs2"
  by (induction fs1 arbitrary: st) auto

lemma process_file_unparsed:
  "process_file (rows, msgs) (p, None) = (rows, msgs @ [St_warning p])"
  by (simp add: process_file_def)

lemma file_loop_skip:
  "file_loop ([], []) (fs1 @ (p, None) # fs2) =
     (fst (file_loop ([], []) (fs1 @ fs2)),
      snd (file_loop ([], []) fs1) @
        St_warning p # snd (file_loop (fst (file_loop ([], []) fs1), []) fs2))"
proof -
  obtain rows1 msgs1 where a: "file_loop ([], []) fs1 = (rows1, msgs1)"
    by (cases "file_loop ([], []) fs1")
  have "file_loop ([], []) (fs1 @ (p, None) # fs2) =
          file_loop (rows1, msgs1 @ [St_warning p]) fs2"
    by (simp add: file_loop_append a process_file_unparsed)
  moreover have "file_loop ([], []) (fs1 @ fs2) = file_loop (rows1, msgs1) fs2"
    by (simp add: file_loop_append a)
  ultimately show ?thesis
    using file_loop_msgs[of rows1 "msgs1 @ [St_warning p]" fs2]
      file_loop_msgs[of rows1 msgs1 fs2]
    by (simp add: a)
qed

lemma py_add_num:
  assumes "py_add x y = Some z" and "py_num z = Some t"
  shows "\<exists>a b. py_num x = Some a \<and> py_num y = Some b \<and> t = a + b"
  using assms by (cases x; cases y) (auto simp: py_add_def split: if_splits)

lemma py_add_of_num:
  assumes "py_num x = Some a" and "py_num y = Some b"
  shows "\<exists>z. py_add x y = Some z \<and> py_num z = Some (a + b)"
  using assms by (cases x; cases y) (auto simp: py_add_def split: if_splits)

lemma py_gt0_num: "py_gt0 x = Some p \<Longrightarrow> \<exists>t. py_num x = Some t \<and> p = (0 < t)"
  by (auto simp: py_gt0_def)

text \<open>
  A day that yields a record has five numeric cells with a positive sum, and the record
  holds the sum and the two rates of that day.
\<close>

lemma day_record_Some:
  assumes "day_record pd row date_str stats = Some r"
  shows "\<exists>a b c d e. 0 < a + b + c + d + e \<and>
           total_strings_day r = a + b + c + d + e \<and>
           approval_rate_day r = a / (a + b + c + d + e) * 100 \<and>
           intervention_rate_day r = (b + c + d + e) / (a + b + c + d + e) * 100"
proof -
  from assms obtain date_obj a p1 p2 p3 p4 s1 s2 s3 total_day q e1 e2 edited q' t where
    g: "py_add a p1 = Some s1" "py_add s1 p2 = Some s2" "py_add s2 p3 = Some s3"
       "py_add s3 p4 = Some total_day" "py_gt0 total_day = Some True"
    and h: "py_div a total_day = Some q" "py_add p1 p2 = Some e1" "py_add e1 p3 = Some e2"
       "py_add e2 p4 = Some edited" "py_div edited total_day = Some q'"
       "py_num total_day = Some t"
    and r: "r = \<lparr> date = date_obj, project_day = project row,
                  language_day = language row, method_day = method_name row,
                  approved_without_edit_day = a, total_strings_day = t,
                  approval_rate_day = q * 100, intervention_rate_day = q' * 100,
                  critical_edits = p4 \<rparr>"
    by (auto simp: day_record_def bind_eq_Some_conv split: if_splits)
  from g(5) h(6) have tpos: "0 < t" by (auto dest: py_gt0_num)
  from py_add_num[OF g(4) h(6)] obtain x3 e where
    n3: "py_num s3 = Some x3" "py_num p4 = Some e" "t = x3 + e" by blast
  from py_add_num[OF g(3) n3(1)] obtain x2 d where
    n2: "py_num s2 = Some x2" "py_num p3 = Some d" "x3 = x2 + d" by blast
  from py_add_num[OF g(2) n2(1)] obtain x1 c where
    n1: "py_num s1 = Some x1" "py_num p2 = Some c" "x2 = x1 + c" by blast
  from py_add_num[OF g(1) n1(1)] obtain a' b where
    n0: "py_num a = Some a'" "py_num p1 = Some b" "x1 = a' + b" by blast
  have t: "t = a' + b + c + d + e" using n3 n2 n1 n0 by simp
  have q: "q = a' / t"
    using h(1) n0(1) h(6) tpos by (simp add: py_div_def split: if_splits)
  have "py_num e1 = Some (b + c)" using py_add_of_num[OF n0(2) n1(2)] h(2) by auto
  then have "py_num e2 = Some (b + c + d)" using py_add_of_num[OF _ n2(2)] h(3) by fastforce
  then have "py_num edited = Some (b + c + d + e)"
    using py_add_of_num[OF _ n3(2)] h(4) by fastforce
  then have q': "q' = (b + c + d + e) / t"
    using h(5) h(6) tpos by (simp add: py_div_def split: if_splits)
  show ?thesis
    apply (rule exI[of _ a'], rule exI[of _ b], rule exI[of _ c], rule exI[of _ d],
        rule exI[of _ e])
    using tpos t q q' r by simp
qed

lemma entry_loop_append:
  "entry_loop pd row acc kvs = acc @ List.map_filter (\<lambda>(d, s). day_record pd row d s) kvs"
  by (induction kvs arbitrary: acc) (auto split: option.splits)

lemma row_loop_append:
  "row_loop pd acc df =
     acc @ concat (map (\<lambda>row. List.map_filter (\<lambda>(d, s). day_record pd row d s)
                                  (py_items (temporal_data row))) df)"
proof (induction df arbitrary: acc)
  case Nil
  show ?case by simp
next
  case (Cons row df)
  show ?case
    by (cases "temporal_data row") (simp_all add: Cons entry_loop_append)
qed

lemma in_create_temporal_data:
  assumes "r \<in> set (create_temporal_data pd df)"
  shows "\<exists>row d s. row \<in> set df \<and> (d, s) \<in> set (py_items (temporal_data row)) \<and>
           day_record pd row d s = Some r"
  using assms unfolding create_temporal_data_def row_loop_append
  by (fastforce simp: map_filter_def)

lemma day_record_counts:
  assumes "py_get stats ''approvedWithoutEdit'' (JInt 0) = Some va"
    and "py_get stats ''postEdited'' (JObj []) = Some pe"
    and "py_get pe ''0-5'' (JInt 0) = Some vb"
    and "py_get pe ''6-10'' (JInt 0) = Some vc"
    and "py_get pe ''11-15'' (JInt 0) = Some vd"
    and "py_get pe ''other'' (JInt 0) = Some ve"
    and "py_num va = Some a" and "py_num vb = Some b" and "py_num vc = Some c"
    and "py_num vd = Some d" and "py_num ve = Some e"
  shows "day_record pd row date_str stats =
     (case pd date_str of
        None \<Rightarrow> None
      | Some date_obj \<Rightarrow>
          if 0 < a + b + c + d + e
          then Some \<lparr> date = date_obj, project_day = project row,
                  language_day = language row, method_day = method_name row,
                  approved_without_edit_day = va,
                  total_strings_day = a + b + c + d + e,
                  approval_rate_day = a / (a + b + c + d + e) * 100,
                  intervention_rate_day = (b + c + d + e) / (a + b + c + d + e) * 100,
                  critical_edits = ve \<rparr>
          else None)"
proof -
  from py_add_of_num[OF assms(7,8)] obtain s1 where
    s1: "py_add va vb = Some s1" "py_num s1 = Some (a + b)" by blast
  from py_add_of_num[OF s1(2) assms(9)] obtain s2 where
    s2: "py_add s1 vc = Some s2" "py_num s2 = Some (a + b + c)" by blast
  from py_add_of_num[OF s2(2) assms(10)] obtain s3 where
    s3: "py_add s2 vd = Some s3" "py_num s3 = Some (a + b + c + d)" by blast
  from py_add_of_num[OF s3(2) assms(11)] obtain total_day where
    td: "py_add s3 ve = Some total_day" "py_num total_day = Some (a + b + c + d + e)" by blast
  from py_add_of_num[OF assms(8,9)] obtain e1 where
    e1: "py_add vb vc = Some e1" "py_num e1 = Some (b + c)" by blast
  from py_add_of_num[OF e1(2) assms(10)] obtain e2 where
    e2: "py_add e1 vd = Some e2" "py_num e2 = Some (b + c + d)" by blast
  from py_add_of_num[OF e2(2) assms(11)] obtain edited where
    ed: "py_add e2 ve = Some edited" "py_num edited = Some (b + c + d + e)" by blast
  show ?thesis
    by (simp add: day_record_def assms(1-6) s1 s2 s3 td e1 e2 ed assms(7) py_gt0_def py_div_def
        split: option.splits)
qed

section \<open>Facts about int64 arithmetic\<close>

text \<open>
  A sum, a difference or a product of int64 cells is the exact one when the exact one is
  in range.
\<close>

lemma sint_add64:
  fixes x y :: int64
  assumes "- (2 ^ 63) \<le> sint x + sint y" and "sint x + sint y < 2 ^ 63"
  shows "sint (x + y) = sint x + sint y"
  using assms by (simp add: sint_word_ariths signed_take_bit_int_eq_self)

lemma sint_diff64:
  fixes x y :: int64
  assumes "- (2 ^ 63) \<le> sint x - sint y" and "sint x - sint y < 2 ^ 63"
  shows "sint (x - y) = sint x - sint y"
  using assms by (simp add: sint_word_ariths signed_take_bit_int_eq_self)

lemma sint_mult64:
  fixes x y :: int64
  assumes "- (2 ^ 63) \<le> sint x * sint y" and "sint x * sint y < 2 ^ 63"
  shows "sint (x * y) = sint x * sint y"
  using assms by (simp add: sint_word_ariths signed_take_bit_int_eq_self)

lemma sint_sum5:
  fixes a b c d e :: int64
  assumes "0 \<le> sint a" "0 \<le> sint b" "0 \<le> sint c" "0 \<le> sint d" "0 \<le> sint e"
    and "sint a + sint b + sint c + sint d + sint e < 2 ^ 63"
  shows "sint (a + b + c + d + e) = sint a + sint b + sint c + sint d + sint e"
proof -
  have 1: "sint (a + b) = sint a + sint b" using assms by (intro sint_add64) auto
  have 2: "sint (a + b + c) = sint a + sint b + sint c" using assms 1 by (subst sint_add64) auto
  have 3: "sint (a + b + c + d) = sint a + sint b + sint c + sint d" using assms 2 by (subst sint_add64) auto
  show ?thesis using assms 3 by (subst sint_add64) auto
qed

lemma sint_sum4:
  fixes b c d e :: int64
  assumes "0 \<le> sint b" "0 \<le> sint c" "0 \<le> sint d" "0 \<le> sint e"
    and "sint b + sint c + sint d + sint e < 2 ^ 63"
  shows "sint (b + c + d + e) = sint b + sint c + sint d + sint e"
  using sint_sum5[of 0 b c d e] assms by simp

lemma sint_weighted:
  fixes a b c d e :: int64
  assumes "0 \<le> sint a" "0 \<le> sint b" "0 \<le> sint c" "0 \<le> sint d" "0 \<le> sint e"
    and "100 * sint a + 95 * sint b + 85 * sint c + 70 * sint d + 40 * sint e < 2 ^ 63"
  shows "sint (a * 100 + b * 95 + c * 85 + d * 70 + e * 40) =
           100 * sint a + 95 * sint b + 85 * sint c + 70 * sint d + 40 * sint e"
proof -
  have m: "sint (a * 100) = sint a * 100" "sint (b * 95) = sint b * 95"
    "sint (c * 85) = sint c * 85" "sint (d * 70) = sint d * 70" "sint (e * 40) = sint e * 40"
    using assms sint_mult64[of a 100] sint_mult64[of b 95] sint_mult64[of c 85]
      sint_mult64[of d 70] sint_mult64[of e 40]
    by simp_all
  have "sint (a * 100 + b * 95 + c * 85 + d * 70 + e * 40) =
        sint (a * 100) + sint (b * 95) + sint (c * 85) + sint (d * 70) + sint (e * 40)"
    using assms m by (intro sint_sum5) simp_all
  then show ?thesis using m by simp
qed

lemma sum_le_weighted:
  fixes A B C D E :: int
  assumes "0 \<le> A" "0 \<le> B" "0 \<le> C" "0 \<le> D" "0 \<le> E"
  shows "A + B + C + D + E \<le> 100 * A + 95 * B + 85 * C + 70 * D + 40 * E"
  using assms by linarith

lemma to_float_eq_0: "to_float x = 0 \<longleftrightarrow> x = 0"
  by (simp add: to_float_def signed_eq_0_iff)

text \<open>The columns of a row whose totals do not wrap.\<close>

lemma total_strings_no_wrap:
  assumes "0 \<le> sint (approved_without_edit r)" and "0 \<le> sint (post_edited_0_5 r)"
    and "0 \<le> sint (post_edited_6_10 r)" and "0 \<le> sint (post_edited_11_15 r)"
    and "0 \<le> sint (post_edited_other r)"
    and "sint (approved_without_edit r) + sint (post_edited_0_5 r) + sint (post_edited_6_10 r)
           + sint (post_edited_11_15 r) + sint (post_edited_other r) < 2 ^ 63"
  shows "sint (total_strings (derive_metrics r)) =
           sint (approved_without_edit r) + sint (post_edited_0_5 r) + sint (post_edited_6_10 r)
           + sint (post_edited_11_15 r) + sint (post_edited_other r)"
    and "sint (total_post_edited (derive_metrics r)) =
           sint (post_edited_0_5 r) + sint (post_edited_6_10 r)
           + sint (post_edited_11_15 r) + sint (post_edited_other r)"
proof -
  show "sint (total_strings (derive_metrics r)) =
           sint (approved_without_edit r) + sint (post_edited_0_5 r) + sint (post_edited_6_10 r)
           + sint (post_edited_11_15 r) + sint (post_edited_other r)"
    using sint_sum5[OF assms] by (simp add: derive_metrics_def Let_def)
  show "sint (total_post_edited (derive_metrics r)) =
           sint (post_edited_0_5 r) + sint (post_edited_6_10 r)
           + sint (post_edited_11_15 r) + sint (post_edited_other r)"
    using sint_sum4[of "post_edited_0_5 r" "post_edited_6_10 r" "post_edited_11_15 r"
        "post_edited_other r"] assms
    by (simp add: derive_metrics_def Let_def)
qed

lemma rate_columns:
  "approval_rate (derive_metrics r) =
     (if 0 < sint (total_strings (derive_metrics r))
      then real_of_int (sint (approved_without_edit r))
             / real_of_int (sint (total_strings (derive_metrics r))) * 100 else 0)"
  "human_intervention_rate (derive_metrics r) =
     (if 0 < sint (total_strings (derive_metrics r))
      then real_of_int (sint (total_post_edited (derive_metrics r)))
             / real_of_int (sint (total_strings (derive_metrics r))) * 100 else 0)"
  "critical_edit_rate (derive_metrics r) =
     (if 0 < sint (total_strings (derive_metrics r))
      then real_of_int (sint (post_edited_other r))
             / real_of_int (sint (total_strings (derive_metrics r))) * 100 else 0)"
  "minor_edit_rate (derive_metrics r) =
     (if 0 < sint (total_strings (derive_metrics r))
      then real_of_int (sint (post_edited_0_5 r))
             / real_of_int (sint (total_strings (derive_metrics r))) * 100 else 0)"
  by (simp_all add: derive_metrics_def Let_def to_float_def del: of_int_sint)

lemma quality_score_no_wrap:
  assumes "0 \<le> sint (approved_without_edit r)" and "0 \<le> sint (post_edited_0_5 r)"
    and "0 \<le> sint (post_edited_6_10 r)" and "0 \<le> sint (post_edited_11_15 r)"
    and "0 \<le> sint (post_edited_other r)"
    and "100 * sint (approved_without_edit r) + 95 * sint (post_edited_0_5 r)
           + 85 * sint (post_edited_6_10 r) + 70 * sint (post_edited_11_15 r)
           + 40 * sint (post_edited_other r) < 2 ^ 63"
  shows "quality_score (derive_metrics r) =
     (if 0 < sint (total_strings (derive_metrics r))
      then real_of_int (100 * sint (approved_without_edit r) + 95 * sint (post_edited_0_5 r)
             + 85 * sint (post_edited_6_10 r) + 70 * sint (post_edited_11_15 r)
             + 40 * sint (post_edited_other r))
           / real_of_int (sint (total_strings (derive_metrics r)))
      else 0)"
  using sint_weighted[OF assms]
  by (simp add: derive_metrics_def Let_def to_float_def del: of_int_sint)

lemmas loader_eval =
  example_export_def method_stats_def process_file_def language_block_def
  method_block_def py_any_def

lemmas row_eval = derive_metrics_def counts_row_def to_float_def Let_def

lemmas temporal_eval =
  create_temporal_data_def temporal_row_def unusable_row_def derive_metrics_def
  counts_row_def to_float_def day_record_def method_stats_def example_to_datetime_def
  py_add_def py_gt0_def py_div_def Let_def

section \<open>The claims\<close>

text \<open>
  C1. The claim: the Loader emits a FlatRecord for a (language, method) pair exactly when
  the pair's cumulative block has a non-zero count; a block whose counts are all zero
  produces none. The test in the source is \<^verbatim>\<open>any(cumulative.values())\<close>, and one of the
  values is the \<^verbatim>\<open>postEdited\<close> dictionary, which is truthy as soon as it has a key. On
  the export whose only block has all five counts zero the Loader emits one row; the table
  has that row, with \<^verbatim>\<open>total_strings\<close> 0 and a \<^verbatim>\<open>risk_score\<close> that is NaN.
\<close>

theorem all_zero_block_is_emitted:
  "file_loop ([], []) [(''export.json'', Some (example_export (method_stats 0 0 0 0 0)))] =
     ([\<lparr> project = JStr ''docs'', language = JStr ''German'',
         language_code = JStr ''de'', method_name = ''AI'',
         approved_without_edit = JInt 0, post_edited_0_5 = JInt 0,
         post_edited_6_10 = JInt 0, post_edited_11_15 = JInt 0,
         post_edited_other = JInt 0, weighted_units = JInt 0,
         temporal_data = JObj [], date_from = JNull, date_to = JNull \<rparr>], [])
   \<and> load_crowdin_data
         [(''export.json'', Some (example_export (method_stats 0 0 0 0 0)))] =
       (Inr (Some [derive_metrics zero_row]), [])
   \<and> total_strings (derive_metrics zero_row) = 0
   \<and> risk_score (derive_metrics zero_row) = NaN"
proof -
  have rows:
    "file_loop ([], []) [(''export.json'', Some (example_export (method_stats 0 0 0 0 0)))] =
     ([\<lparr> project = JStr ''docs'', language = JStr ''German'',
         language_code = JStr ''de'', method_name = ''AI'',
         approved_without_edit = JInt 0, post_edited_0_5 = JInt 0,
         post_edited_6_10 = JInt 0, post_edited_11_15 = JInt 0,
         post_edited_other = JInt 0, weighted_units = JInt 0,
         temporal_data = JObj [], date_from = JNull, date_to = JNull \<rparr>], [])"
    by (simp add: loader_eval)
  have table:
    "load_crowdin_data
         [(''export.json'', Some (example_export (method_stats 0 0 0 0 0)))] =
       (Inr (Some [derive_metrics zero_row]), [])"
    unfolding load_crowdin_data_def rows
    by (simp add: frame_def frame_row_def zero_row_def counts_row_def)
  have total: "total_strings (derive_metrics zero_row) = 0"
    by (simp add: zero_row_def row_eval)
  have risk: "risk_score (derive_metrics zero_row) = NaN"
    by (simp add: zero_row_def row_eval np_div_def)
  show ?thesis using rows table total risk by blast
qed

text \<open>
  C2. \<^verbatim>\<open>risk_score\<close> is 3 times \<^verbatim>\<open>critical_edit_rate\<close>, plus 2 times the percentage of
  the bucket 11-15, plus the percentage of the bucket 6-10, each percentage a division by
  \<^verbatim>\<open>total_strings\<close>. The division is not guarded: on a row whose \<^verbatim>\<open>total_strings\<close> is 0
  every rate column and \<^verbatim>\<open>quality_score\<close> are 0 by their else branch, while
  \<^verbatim>\<open>risk_score\<close> is the outcome of dividing by zero, which is not a finite number.
\<close>

theorem risk_score_not_guarded:
  "(total_strings (derive_metrics r) \<noteq> 0 \<longrightarrow>
      risk_score (derive_metrics r) =
        Fin (3 * critical_edit_rate (derive_metrics r)
             + 2 * (100 * to_float (post_edited_11_15 r) / to_float (total_strings (derive_metrics r)))
             + 1 * (100 * to_float (post_edited_6_10 r) / to_float (total_strings (derive_metrics r)))))
   \<and> (total_strings (derive_metrics r) = 0 \<longrightarrow>
        \<not> is_fin (risk_score (derive_metrics r)) \<and>
        approval_rate (derive_metrics r) = 0 \<and>
        human_intervention_rate (derive_metrics r) = 0 \<and>
        critical_edit_rate (derive_metrics r) = 0 \<and>
        minor_edit_rate (derive_metrics r) = 0 \<and>
        quality_score (derive_metrics r) = 0)"
  by (auto simp: derive_metrics_def Let_def np_div_def to_float_eq_0)

theorem risk_score_not_guarded_witness:
  "total_strings (derive_metrics example_row) \<noteq> 0
   \<and> risk_score (derive_metrics example_row) = Fin 17
   \<and> total_strings (derive_metrics zero_row) = 0
   \<and> \<not> is_fin (risk_score (derive_metrics zero_row))
   \<and> critical_edit_rate (derive_metrics zero_row) = 0"
proof -
  have a: "total_strings (derive_metrics example_row) \<noteq> 0"
    by (simp add: example_row_def row_eval)
  have b: "total_strings (derive_metrics zero_row) = 0"
    by (simp add: zero_row_def row_eval)
  have c: "3 * critical_edit_rate (derive_metrics example_row)
             + 2 * (100 * to_float (post_edited_11_15 example_row)
                      / to_float (total_strings (derive_metrics example_row)))
             + 1 * (100 * to_float (post_edited_6_10 example_row)
                      / to_float (total_strings (derive_metrics example_row)))
           = 17"
    by (simp add: example_row_def row_eval)
  show ?thesis
    using a b c risk_score_not_guarded[of example_row] risk_score_not_guarded[of zero_row]
    by simp
qed

text \<open>
  C3. The claim: on the counts approved 80, 0-5 10, 6-10 5, 11-15 3 and other 2 the
  Metric Deriver yields \<^verbatim>\<open>approval_rate\<close> 80, \<^verbatim>\<open>human_intervention_rate\<close> 20,
  \<^verbatim>\<open>critical_edit_rate\<close> 2 and \<^verbatim>\<open>quality_score\<close> 91.95. The three rates are right. The
  weighted sum is 8000 + 950 + 425 + 210 + 80 = 9665, so the score is 96.65, not 91.95.
\<close>

theorem example_quality_score_is_not_91_95:
  "\<not> (approval_rate (derive_metrics example_row) = 80.0
      \<and> human_intervention_rate (derive_metrics example_row) = 20.0
      \<and> critical_edit_rate (derive_metrics example_row) = 2.0
      \<and> quality_score (derive_metrics example_row) = 91.95)"
  by (simp add: example_row_def row_eval)

text \<open>
  C3, amended: on a row with these five counts, whatever its other cells, the Metric
  Deriver yields \<^verbatim>\<open>total_strings\<close> 100, \<^verbatim>\<open>approval_rate\<close> 80,
  \<^verbatim>\<open>human_intervention_rate\<close> 20, \<^verbatim>\<open>critical_edit_rate\<close> 2 and \<^verbatim>\<open>quality_score\<close> 96.65.
\<close>

theorem example_metrics:
  "total_strings
     (derive_metrics (r\<lparr> approved_without_edit := 80, post_edited_0_5 := 10,
         post_edited_6_10 := 5, post_edited_11_15 := 3, post_edited_other := 2 \<rparr>)) = 100
   \<and> approval_rate
     (derive_metrics (r\<lparr> approved_without_edit := 80, post_edited_0_5 := 10,
         post_edited_6_10 := 5, post_edited_11_15 := 3, post_edited_other := 2 \<rparr>)) = 80.0
   \<and> human_intervention_rate
     (derive_metrics (r\<lparr> approved_without_edit := 80, post_edited_0_5 := 10,
         post_edited_6_10 := 5, post_edited_11_15 := 3, post_edited_other := 2 \<rparr>)) = 20.0
   \<and> critical_edit_rate
     (derive_metrics (r\<lparr> approved_without_edit := 80, post_edited_0_5 := 10,
         post_edited_6_10 := 5, post_edited_11_15 := 3, post_edited_other := 2 \<rparr>)) = 2.0
   \<and> quality_score
     (derive_metrics (r\<lparr> approved_without_edit := 80, post_edited_0_5 := 10,
         post_edited_6_10 := 5, post_edited_11_15 := 3, post_edited_other := 2 \<rparr>)) = 96.65"
  by (simp add: derive_metrics_def to_float_def)

text \<open>
  C4. The claim: for a row with non-negative counts, \<^verbatim>\<open>total_strings\<close> is
  \<^verbatim>\<open>approved_without_edit\<close> plus \<^verbatim>\<open>total_post_edited\<close>, the four rate columns lie
  between 0 and 100 when \<^verbatim>\<open>total_strings\<close> is positive, and are 0 when it is 0. The sum
  of the counts is int64 arithmetic: with the non-negative counts \<open>9 * 10^18\<close>,
  \<open>9 * 10^18\<close> and \<open>10^18\<close> it wraps to a positive \<^verbatim>\<open>total_strings\<close> that is smaller
  than \<^verbatim>\<open>approved_without_edit\<close>, and \<^verbatim>\<open>approval_rate\<close> is above 1600.
\<close>

theorem rates_exceed_100_when_total_wraps:
  "0 \<le> sint (approved_without_edit wrapped_total_row)
   \<and> 0 \<le> sint (post_edited_0_5 wrapped_total_row)
   \<and> 0 \<le> sint (post_edited_6_10 wrapped_total_row)
   \<and> 0 \<le> sint (post_edited_11_15 wrapped_total_row)
   \<and> 0 \<le> sint (post_edited_other wrapped_total_row)
   \<and> 0 < sint (total_strings (derive_metrics wrapped_total_row))
   \<and> 100 < approval_rate (derive_metrics wrapped_total_row)"
  by (simp add: wrapped_total_row_def row_eval)

text \<open>
  C4, amended: for a row with non-negative counts whose sum is below \<open>2^63\<close>, so that
  \<^verbatim>\<open>total_strings\<close> does not wrap: \<^verbatim>\<open>total_strings\<close> is \<^verbatim>\<open>approved_without_edit\<close> plus
  \<^verbatim>\<open>total_post_edited\<close>; when \<^verbatim>\<open>total_strings\<close> is positive the four rate columns lie
  between 0 and 100; when it is 0 they are 0.
\<close>

theorem rates_in_range:
  assumes "0 \<le> sint (approved_without_edit r)" and "0 \<le> sint (post_edited_0_5 r)"
    and "0 \<le> sint (post_edited_6_10 r)" and "0 \<le> sint (post_edited_11_15 r)"
    and "0 \<le> sint (post_edited_other r)"
    and "sint (approved_without_edit r) + sint (post_edited_0_5 r) + sint (post_edited_6_10 r)
           + sint (post_edited_11_15 r) + sint (post_edited_other r) < 2 ^ 63"
  shows "sint (total_strings (derive_metrics r)) =
           sint (approved_without_edit (derive_metrics r))
           + sint (total_post_edited (derive_metrics r))
    \<and> (0 < sint (total_strings (derive_metrics r)) \<longrightarrow>
          0 \<le> approval_rate (derive_metrics r) \<and>
          approval_rate (derive_metrics r) \<le> 100 \<and>
          0 \<le> human_intervention_rate (derive_metrics r) \<and>
          human_intervention_rate (derive_metrics r) \<le> 100 \<and>
          0 \<le> critical_edit_rate (derive_metrics r) \<and>
          critical_edit_rate (derive_metrics r) \<le> 100 \<and>
          0 \<le> minor_edit_rate (derive_metrics r) \<and>
          minor_edit_rate (derive_metrics r) \<le> 100)
    \<and> (total_strings (derive_metrics r) = 0 \<longrightarrow>
          approval_rate (derive_metrics r) = 0 \<and>
          human_intervention_rate (derive_metrics r) = 0 \<and>
          critical_edit_rate (derive_metrics r) = 0 \<and>
          minor_edit_rate (derive_metrics r) = 0)"
proof -
  define A B C D E where "A = sint (approved_without_edit r)" and "B = sint (post_edited_0_5 r)"
    and "C = sint (post_edited_6_10 r)" and "D = sint (post_edited_11_15 r)"
    and "E = sint (post_edited_other r)"
  note v = A_def B_def C_def D_def E_def
  have n: "0 \<le> A" "0 \<le> B" "0 \<le> C" "0 \<le> D" "0 \<le> E"
    using assms by (simp_all add: v)
  have t: "sint (total_strings (derive_metrics r)) = A + B + C + D + E"
    and p: "sint (total_post_edited (derive_metrics r)) = B + C + D + E"
    using total_strings_no_wrap[OF assms] by (simp_all add: v)
  have a: "approved_without_edit (derive_metrics r) = approved_without_edit r"
    by (simp add: derive_metrics_def Let_def)
  have 1: "sint (total_strings (derive_metrics r)) =
           sint (approved_without_edit (derive_metrics r))
           + sint (total_post_edited (derive_metrics r))"
    by (simp add: t p a flip: A_def)
  have 2: "0 \<le> approval_rate (derive_metrics r) \<and>
          approval_rate (derive_metrics r) \<le> 100 \<and>
          0 \<le> human_intervention_rate (derive_metrics r) \<and>
          human_intervention_rate (derive_metrics r) \<le> 100 \<and>
          0 \<le> critical_edit_rate (derive_metrics r) \<and>
          critical_edit_rate (derive_metrics r) \<le> 100 \<and>
          0 \<le> minor_edit_rate (derive_metrics r) \<and>
          minor_edit_rate (derive_metrics r) \<le> 100"
    if "0 < sint (total_strings (derive_metrics r))"
  proof -
    have pos: "0 < real_of_int (A + B + C + D + E)" using that t by simp
    have le: "real_of_int A \<le> real_of_int (A + B + C + D + E)"
      "real_of_int (B + C + D + E) \<le> real_of_int (A + B + C + D + E)"
      "real_of_int E \<le> real_of_int (A + B + C + D + E)"
      "real_of_int B \<le> real_of_int (A + B + C + D + E)"
      using n by simp_all
    have ge: "0 \<le> real_of_int A" "0 \<le> real_of_int (B + C + D + E)" "0 \<le> real_of_int E"
      "0 \<le> real_of_int B"
      using n by simp_all
    have r: "0 \<le> x / real_of_int (A + B + C + D + E) * 100 \<and>
             x / real_of_int (A + B + C + D + E) * 100 \<le> 100"
      if "0 \<le> x" "x \<le> real_of_int (A + B + C + D + E)" for x :: real
      using that pos by (simp add: field_simps)
    show ?thesis
      using r[OF ge(1) le(1)] r[OF ge(2) le(2)] r[OF ge(3) le(3)] r[OF ge(4) le(4)] that
      unfolding rate_columns t p by (simp flip: v)
  qed
  have 3: "approval_rate (derive_metrics r) = 0 \<and>
          human_intervention_rate (derive_metrics r) = 0 \<and>
          critical_edit_rate (derive_metrics r) = 0 \<and>
          minor_edit_rate (derive_metrics r) = 0"
    if "total_strings (derive_metrics r) = 0"
    unfolding rate_columns using that by simp
  show ?thesis using 1 2 3 by blast
qed

theorem rates_in_range_witness:
  "0 \<le> sint (approved_without_edit example_row) \<and> 0 \<le> sint (post_edited_0_5 example_row)
   \<and> 0 \<le> sint (post_edited_6_10 example_row) \<and> 0 \<le> sint (post_edited_11_15 example_row)
   \<and> 0 \<le> sint (post_edited_other example_row)
   \<and> sint (approved_without_edit example_row) + sint (post_edited_0_5 example_row)
       + sint (post_edited_6_10 example_row) + sint (post_edited_11_15 example_row)
       + sint (post_edited_other example_row) < 2 ^ 63
   \<and> 0 < sint (total_strings (derive_metrics example_row))
   \<and> 0 \<le> approval_rate (derive_metrics example_row)
   \<and> approval_rate (derive_metrics example_row) \<le> 100
   \<and> human_intervention_rate (derive_metrics example_row) \<le> 100
   \<and> critical_edit_rate (derive_metrics example_row) \<le> 100
   \<and> minor_edit_rate (derive_metrics example_row) \<le> 100
   \<and> total_strings (derive_metrics zero_row) = 0
   \<and> approval_rate (derive_metrics zero_row) = 0
   \<and> human_intervention_rate (derive_metrics zero_row) = 0
   \<and> critical_edit_rate (derive_metrics zero_row) = 0
   \<and> minor_edit_rate (derive_metrics zero_row) = 0"
proof -
  have h: "0 \<le> sint (approved_without_edit example_row)"
    "0 \<le> sint (post_edited_0_5 example_row)"
    "0 \<le> sint (post_edited_6_10 example_row)" "0 \<le> sint (post_edited_11_15 example_row)"
    "0 \<le> sint (post_edited_other example_row)"
    "sint (approved_without_edit example_row) + sint (post_edited_0_5 example_row)
       + sint (post_edited_6_10 example_row) + sint (post_edited_11_15 example_row)
       + sint (post_edited_other example_row) < 2 ^ 63"
    by (simp_all add: example_row_def counts_row_def)
  have z: "0 \<le> sint (approved_without_edit zero_row)" "0 \<le> sint (post_edited_0_5 zero_row)"
    "0 \<le> sint (post_edited_6_10 zero_row)" "0 \<le> sint (post_edited_11_15 zero_row)"
    "0 \<le> sint (post_edited_other zero_row)"
    "sint (approved_without_edit zero_row) + sint (post_edited_0_5 zero_row)
       + sint (post_edited_6_10 zero_row) + sint (post_edited_11_15 zero_row)
       + sint (post_edited_other zero_row) < 2 ^ 63"
    by (simp_all add: zero_row_def counts_row_def)
  have p: "0 < sint (total_strings (derive_metrics example_row))"
    by (simp add: example_row_def row_eval)
  have n: "total_strings (derive_metrics zero_row) = 0"
    by (simp add: zero_row_def row_eval)
  show ?thesis
    using h p n rates_in_range[OF h] rates_in_range[OF z] by simp
qed

text \<open>
  C5. The claim: with non-negative counts, moving any amount out of
  \<^verbatim>\<open>approved_without_edit\<close> or out of the buckets 0-5, 6-10 and 11-15 into the bucket
  other leaves \<^verbatim>\<open>total_strings\<close> as it is and never increases \<^verbatim>\<open>quality_score\<close>. The
  weighted sum is int64 arithmetic: with \<open>10^17\<close> approved strings the product by 100
  wraps and the score is negative; once the \<open>10^17\<close> strings are moved into other the
  product by 40 does not wrap and the score is 40, which is more.
\<close>

theorem quality_score_rises_when_product_wraps:
  "0 \<le> sint (approved_without_edit huge_row)
   \<and> 0 \<le> sint (post_edited_0_5 huge_row)
   \<and> 0 \<le> sint (post_edited_6_10 huge_row)
   \<and> 0 \<le> sint (post_edited_11_15 huge_row)
   \<and> 0 \<le> sint (post_edited_other huge_row)
   \<and> sint (100000000000000000 :: int64) \<le> sint (approved_without_edit huge_row)
   \<and> total_strings
         (derive_metrics (huge_row\<lparr> approved_without_edit :=
              approved_without_edit huge_row - 100000000000000000,
            post_edited_0_5 := post_edited_0_5 huge_row - 0,
            post_edited_6_10 := post_edited_6_10 huge_row - 0,
            post_edited_11_15 := post_edited_11_15 huge_row - 0,
            post_edited_other := post_edited_other huge_row + (100000000000000000 + 0 + 0 + 0) \<rparr>))
       = total_strings (derive_metrics huge_row)
   \<and> quality_score (derive_metrics huge_row)
       < quality_score
         (derive_metrics (huge_row\<lparr> approved_without_edit :=
              approved_without_edit huge_row - 100000000000000000,
            post_edited_0_5 := post_edited_0_5 huge_row - 0,
            post_edited_6_10 := post_edited_6_10 huge_row - 0,
            post_edited_11_15 := post_edited_11_15 huge_row - 0,
            post_edited_other := post_edited_other huge_row + (100000000000000000 + 0 + 0 + 0) \<rparr>))"
  by (simp add: huge_row_def row_eval)

text \<open>
  C5, amended: with non-negative counts whose weighted sum, 100 times approved plus 95, 85,
  70 and 40 times the four buckets, is below \<open>2^63\<close>, so that it does not wrap: moving
  any amounts out of \<^verbatim>\<open>approved_without_edit\<close> and out of the buckets 0-5, 6-10 and 11-15
  into the bucket other leaves \<^verbatim>\<open>total_strings\<close> as it is and never increases
  \<^verbatim>\<open>quality_score\<close>.
\<close>

theorem quality_score_monotone:
  assumes "0 \<le> sint (approved_without_edit r)" and "0 \<le> sint (post_edited_0_5 r)"
    and "0 \<le> sint (post_edited_6_10 r)" and "0 \<le> sint (post_edited_11_15 r)"
    and "0 \<le> sint (post_edited_other r)"
    and "100 * sint (approved_without_edit r) + 95 * sint (post_edited_0_5 r)
           + 85 * sint (post_edited_6_10 r) + 70 * sint (post_edited_11_15 r)
           + 40 * sint (post_edited_other r) < 2 ^ 63"
    and "0 \<le> sint da" and "sint da \<le> sint (approved_without_edit r)"
    and "0 \<le> sint db" and "sint db \<le> sint (post_edited_0_5 r)"
    and "0 \<le> sint dc" and "sint dc \<le> sint (post_edited_6_10 r)"
    and "0 \<le> sint dd" and "sint dd \<le> sint (post_edited_11_15 r)"
  shows "total_strings
           (derive_metrics (r\<lparr> approved_without_edit := approved_without_edit r - da,
              post_edited_0_5 := post_edited_0_5 r - db,
              post_edited_6_10 := post_edited_6_10 r - dc,
              post_edited_11_15 := post_edited_11_15 r - dd,
              post_edited_other := post_edited_other r + (da + db + dc + dd) \<rparr>))
         = total_strings (derive_metrics r)
     \<and> quality_score
           (derive_metrics (r\<lparr> approved_without_edit := approved_without_edit r - da,
              post_edited_0_5 := post_edited_0_5 r - db,
              post_edited_6_10 := post_edited_6_10 r - dc,
              post_edited_11_15 := post_edited_11_15 r - dd,
              post_edited_other := post_edited_other r + (da + db + dc + dd) \<rparr>))
         \<le> quality_score (derive_metrics r)"
proof -
  define r' where "r' = r\<lparr> approved_without_edit := approved_without_edit r - da,
              post_edited_0_5 := post_edited_0_5 r - db,
              post_edited_6_10 := post_edited_6_10 r - dc,
              post_edited_11_15 := post_edited_11_15 r - dd,
              post_edited_other := post_edited_other r + (da + db + dc + dd) \<rparr>"
  define A B C D E where "A = sint (approved_without_edit r)" and "B = sint (post_edited_0_5 r)"
    and "C = sint (post_edited_6_10 r)" and "D = sint (post_edited_11_15 r)"
    and "E = sint (post_edited_other r)"
  define DA DB DC DD where "DA = sint da" and "DB = sint db" and "DC = sint dc"
    and "DD = sint dd"
  note v = A_def B_def C_def D_def E_def DA_def DB_def DC_def DD_def
  have n: "0 \<le> A" "0 \<le> B" "0 \<le> C" "0 \<le> D" "0 \<le> E"
    and w: "100 * A + 95 * B + 85 * C + 70 * D + 40 * E < 2 ^ 63"
    and m: "0 \<le> DA" "DA \<le> A" "0 \<le> DB" "DB \<le> B" "0 \<le> DC" "DC \<le> C" "0 \<le> DD" "DD \<le> D"
    using assms by (simp_all add: v)
  have s: "A + B + C + D + E < 2 ^ 63"
    using sum_le_weighted[OF n] w by linarith
  have moved: "sint (da + db + dc + dd) = DA + DB + DC + DD"
    unfolding v using assms s[unfolded v] by (intro sint_sum4) auto
  have cells: "sint (approved_without_edit r') = A - DA" "sint (post_edited_0_5 r') = B - DB"
    "sint (post_edited_6_10 r') = C - DC" "sint (post_edited_11_15 r') = D - DD"
    "sint (post_edited_other r') = E + (DA + DB + DC + DD)"
  proof -
    show "sint (approved_without_edit r') = A - DA"
      unfolding v r'_def using assms s[unfolded v] by (simp add: sint_diff64)
    show "sint (post_edited_0_5 r') = B - DB"
      unfolding v r'_def using assms s[unfolded v] by (simp add: sint_diff64)
    show "sint (post_edited_6_10 r') = C - DC"
      unfolding v r'_def using assms s[unfolded v] by (simp add: sint_diff64)
    show "sint (post_edited_11_15 r') = D - DD"
      unfolding v r'_def using assms s[unfolded v] by (simp add: sint_diff64)
    have "sint (post_edited_other r + (da + db + dc + dd)) = E + (DA + DB + DC + DD)"
      using moved n m s by (subst sint_add64) (simp_all add: E_def)
    then show "sint (post_edited_other r') = E + (DA + DB + DC + DD)"
      by (simp add: r'_def)
  qed
  have n': "0 \<le> sint (approved_without_edit r')" "0 \<le> sint (post_edited_0_5 r')"
    "0 \<le> sint (post_edited_6_10 r')" "0 \<le> sint (post_edited_11_15 r')"
    "0 \<le> sint (post_edited_other r')"
    using n m by (simp_all add: cells)
  have le: "100 * (A - DA) + 95 * (B - DB) + 85 * (C - DC) + 70 * (D - DD)
             + 40 * (E + (DA + DB + DC + DD))
           \<le> 100 * A + 95 * B + 85 * C + 70 * D + 40 * E"
    using m by (simp add: algebra_simps)
  have w': "100 * sint (approved_without_edit r') + 95 * sint (post_edited_0_5 r')
           + 85 * sint (post_edited_6_10 r') + 70 * sint (post_edited_11_15 r')
           + 40 * sint (post_edited_other r') < 2 ^ 63"
    using le w unfolding cells by linarith
  have same: "total_strings (derive_metrics r') = total_strings (derive_metrics r)"
    by (simp add: derive_metrics_def Let_def r'_def)
  have t: "sint (total_strings (derive_metrics r)) = A + B + C + D + E"
    using total_strings_no_wrap(1)[OF assms(1-5)] s by (simp add: v)
  have q: "quality_score (derive_metrics r) =
     (if 0 < A + B + C + D + E
      then real_of_int (100 * A + 95 * B + 85 * C + 70 * D + 40 * E)
           / real_of_int (A + B + C + D + E)
      else 0)"
    using quality_score_no_wrap[OF assms(1-6)] by (simp add: t flip: v del: of_int_sint)
  have q': "quality_score (derive_metrics r') =
     (if 0 < A + B + C + D + E
      then real_of_int (100 * (A - DA) + 95 * (B - DB) + 85 * (C - DC) + 70 * (D - DD)
             + 40 * (E + (DA + DB + DC + DD)))
           / real_of_int (A + B + C + D + E)
      else 0)"
    using quality_score_no_wrap[OF n' w'] by (simp add: same t cells del: of_int_sint)
  have "quality_score (derive_metrics r') \<le> quality_score (derive_metrics r)"
  proof (cases "0 < A + B + C + D + E")
    case True
    then have "0 < real_of_int (A + B + C + D + E)" by simp
    moreover have "real_of_int (100 * (A - DA) + 95 * (B - DB) + 85 * (C - DC) + 70 * (D - DD)
             + 40 * (E + (DA + DB + DC + DD)))
           \<le> real_of_int (100 * A + 95 * B + 85 * C + 70 * D + 40 * E)"
      using le by (simp only: of_int_le_iff)
    ultimately show ?thesis
      unfolding q q' using True by (simp only: if_True divide_le_cancel) simp
  next
    case False
    then show ?thesis unfolding q q' by simp
  qed
  then show ?thesis using same by (simp add: r'_def)
qed

theorem quality_score_monotone_witness:
  "0 \<le> sint (approved_without_edit example_row)
   \<and> sint (30 :: int64) \<le> sint (approved_without_edit example_row)
   \<and> sint (4 :: int64) \<le> sint (post_edited_0_5 example_row)
   \<and> sint (5 :: int64) \<le> sint (post_edited_6_10 example_row)
   \<and> sint (1 :: int64) \<le> sint (post_edited_11_15 example_row)
   \<and> 100 * sint (approved_without_edit example_row) + 95 * sint (post_edited_0_5 example_row)
       + 85 * sint (post_edited_6_10 example_row) + 70 * sint (post_edited_11_15 example_row)
       + 40 * sint (post_edited_other example_row) < 2 ^ 63
   \<and> quality_score
       (derive_metrics (example_row\<lparr> approved_without_edit := approved_without_edit example_row - 30,
          post_edited_0_5 := post_edited_0_5 example_row - 4,
          post_edited_6_10 := post_edited_6_10 example_row - 5,
          post_edited_11_15 := post_edited_11_15 example_row - 1,
          post_edited_other := post_edited_other example_row + (30 + 4 + 5 + 1) \<rparr>))
       \<le> quality_score (derive_metrics example_row)"
proof -
  have h: "0 \<le> sint (approved_without_edit example_row)"
    "0 \<le> sint (post_edited_0_5 example_row)"
    "0 \<le> sint (post_edited_6_10 example_row)" "0 \<le> sint (post_edited_11_15 example_row)"
    "0 \<le> sint (post_edited_other example_row)"
    "100 * sint (approved_without_edit example_row) + 95 * sint (post_edited_0_5 example_row)
       + 85 * sint (post_edited_6_10 example_row) + 70 * sint (post_edited_11_15 example_row)
       + 40 * sint (post_edited_other example_row) < 2 ^ 63"
    by (simp_all add: example_row_def counts_row_def)
  have m: "0 \<le> sint (30 :: int64)" "sint (30 :: int64) \<le> sint (approved_without_edit example_row)"
    "0 \<le> sint (4 :: int64)" "sint (4 :: int64) \<le> sint (post_edited_0_5 example_row)"
    "0 \<le> sint (5 :: int64)" "sint (5 :: int64) \<le> sint (post_edited_6_10 example_row)"
    "0 \<le> sint (1 :: int64)" "sint (1 :: int64) \<le> sint (post_edited_11_15 example_row)"
    by (simp_all add: example_row_def counts_row_def)
  show ?thesis
    using h m quality_score_monotone[OF h m] by simp
qed

text \<open>
  C6. The Temporal Extractor treats every entry of every row on its own, in order: the
  table is the list of the records of the entries that yield one. For an entry whose five
  cells are numbers, a record is yielded exactly when the date parses and the cells add up
  to a positive total, so the number of records is the number of such entries. Every
  record of the table has a positive \<^verbatim>\<open>total_strings\<close>.
\<close>

theorem temporal_record_per_usable_entry:
  "create_temporal_data pd df =
     concat (map (\<lambda>row. List.map_filter (\<lambda>(d, s). day_record pd row d s)
                           (py_items (temporal_data row))) df)
   \<and> length (create_temporal_data pd df) =
       sum_list (map (\<lambda>row. length (filter (\<lambda>(d, s). day_record pd row d s \<noteq> None)
                                       (py_items (temporal_data row)))) df)
   \<and> (py_get stats ''approvedWithoutEdit'' (JInt 0) = Some va \<longrightarrow>
      py_get stats ''postEdited'' (JObj []) = Some pe \<longrightarrow>
      py_get pe ''0-5'' (JInt 0) = Some vb \<longrightarrow>
      py_get pe ''6-10'' (JInt 0) = Some vc \<longrightarrow>
      py_get pe ''11-15'' (JInt 0) = Some vd \<longrightarrow>
      py_get pe ''other'' (JInt 0) = Some ve \<longrightarrow>
      py_num va = Some a \<longrightarrow> py_num vb = Some b \<longrightarrow> py_num vc = Some c \<longrightarrow>
      py_num vd = Some d \<longrightarrow> py_num ve = Some e \<longrightarrow>
        (day_record pd row date_str stats \<noteq> None) =
          (pd date_str \<noteq> None \<and> 0 < a + b + c + d + e))
   \<and> (\<forall>r \<in> set (create_temporal_data pd df). 0 < total_strings_day r)"
proof -
  let ?per_row = "\<lambda>row. List.map_filter (\<lambda>(d, s). day_record pd row d s)
                          (py_items (temporal_data row))"
  have 1: "create_temporal_data pd df = concat (map ?per_row df)"
    by (simp add: create_temporal_data_def row_loop_append)
  have "length (concat (map ?per_row df)) =
          sum_list (map (\<lambda>row. length (filter (\<lambda>(d, s). day_record pd row d s \<noteq> None)
                                          (py_items (temporal_data row)))) df)"
    by (induction df) (simp_all add: map_filter_def case_prod_unfold)
  then have 2: "length (create_temporal_data pd df) =
       sum_list (map (\<lambda>row. length (filter (\<lambda>(d, s). day_record pd row d s \<noteq> None)
                                       (py_items (temporal_data row)))) df)"
    by (simp add: 1)
  have 3: "(day_record pd row date_str stats \<noteq> None) =
          (pd date_str \<noteq> None \<and> 0 < a + b + c + d + e)"
    if "py_get stats ''approvedWithoutEdit'' (JInt 0) = Some va"
      and "py_get stats ''postEdited'' (JObj []) = Some pe"
      and "py_get pe ''0-5'' (JInt 0) = Some vb"
      and "py_get pe ''6-10'' (JInt 0) = Some vc"
      and "py_get pe ''11-15'' (JInt 0) = Some vd"
      and "py_get pe ''other'' (JInt 0) = Some ve"
      and "py_num va = Some a" and "py_num vb = Some b" and "py_num vc = Some c"
      and "py_num vd = Some d" and "py_num ve = Some e"
    unfolding day_record_counts[OF that, of pd row date_str]
    by (auto split: option.splits if_splits)
  have 4: "\<forall>r \<in> set (create_temporal_data pd df). 0 < total_strings_day r"
  proof
    fix r
    assume "r \<in> set (create_temporal_data pd df)"
    from in_create_temporal_data[OF this] obtain row d s where
      "day_record pd row d s = Some r" by blast
    from day_record_Some[OF this] show "0 < total_strings_day r" by auto
  qed
  show ?thesis using 1 2 3 4 by blast
qed

theorem temporal_record_per_usable_entry_witness:
  "length (create_temporal_data example_to_datetime [temporal_row, unusable_row]) = 1
   \<and> day_record example_to_datetime temporal_row ''2024-01-15'' (method_stats 8 1 0 0 1) \<noteq> None
   \<and> day_record example_to_datetime temporal_row ''yesterday'' (method_stats 2 0 0 0 0) = None
   \<and> day_record example_to_datetime temporal_row ''2024-01-16'' (method_stats 0 0 0 0 0) = None
   \<and> list_all (\<lambda>r. 0 < total_strings_day r)
       (create_temporal_data example_to_datetime [temporal_row, unusable_row])"
proof -
  let ?pe = "\<lambda>b c d e. JObj [(''0-5'', JInt b), (''6-10'', JInt c),
                             (''11-15'', JInt d), (''other'', JInt e)]"
  have g: "py_get (method_stats a b c d e) ''approvedWithoutEdit'' (JInt 0) = Some (JInt a)"
    "py_get (method_stats a b c d e) ''postEdited'' (JObj []) = Some (?pe b c d e)"
    "py_get (?pe b c d e) ''0-5'' (JInt 0) = Some (JInt b)"
    "py_get (?pe b c d e) ''6-10'' (JInt 0) = Some (JInt c)"
    "py_get (?pe b c d e) ''11-15'' (JInt 0) = Some (JInt d)"
    "py_get (?pe b c d e) ''other'' (JInt 0) = Some (JInt e)" for a b c d e
    by (simp_all add: method_stats_def)
  have dates: "example_to_datetime ''2024-01-15'' \<noteq> None"
    "example_to_datetime ''yesterday'' = None"
    "example_to_datetime ''2024-01-16'' \<noteq> None"
    by (simp_all add: example_to_datetime_def)
  have items:
    "py_items (temporal_data temporal_row) =
       [(''2024-01-15'', method_stats 8 1 0 0 1), (''yesterday'', method_stats 2 0 0 0 0),
        (''2024-01-16'', method_stats 0 0 0 0 0)]"
    "py_items (temporal_data unusable_row) =
       [(''yesterday'', method_stats 2 0 0 0 0), (''2024-01-16'', method_stats 0 0 0 0 0)]"
    by (simp_all add: temporal_row_def unusable_row_def row_eval)
  note t = temporal_record_per_usable_entry
  note entry = t[THEN conjunct2, THEN conjunct2, THEN conjunct1, rule_format]
  have d1: "day_record example_to_datetime row ''2024-01-15'' (method_stats 8 1 0 0 1) \<noteq> None"
    for row
    using entry[where pd = example_to_datetime and row = row and date_str = "''2024-01-15''",
        OF g(1)[of 8 1 0 0 1] g(2)[of 8 1 0 0 1] g(3)[of 1 0 0 1] g(4)[of 1 0 0 1]
          g(5)[of 1 0 0 1] g(6)[of 1 0 0 1], of 8 1 0 0 1] dates
    by simp
  have d2: "day_record example_to_datetime row ''yesterday'' (method_stats 2 0 0 0 0) = None"
    for row
    using entry[where pd = example_to_datetime and row = row and date_str = "''yesterday''",
        OF g(1)[of 2 0 0 0 0] g(2)[of 2 0 0 0 0] g(3)[of 0 0 0 0] g(4)[of 0 0 0 0]
          g(5)[of 0 0 0 0] g(6)[of 0 0 0 0], of 2 0 0 0 0] dates
    by simp
  have d3: "day_record example_to_datetime row ''2024-01-16'' (method_stats 0 0 0 0 0) = None"
    for row
    using entry[where pd = example_to_datetime and row = row and date_str = "''2024-01-16''",
        OF g(1)[of 0 0 0 0 0] g(2)[of 0 0 0 0 0] g(3)[of 0 0 0 0] g(4)[of 0 0 0 0]
          g(5)[of 0 0 0 0] g(6)[of 0 0 0 0], of 0 0 0 0 0] dates
    by simp
  have len: "length (create_temporal_data example_to_datetime [temporal_row, unusable_row]) = 1"
    using t[of example_to_datetime "[temporal_row, unusable_row]", THEN conjunct2,
        THEN conjunct1] items d1 d2 d3
    by simp
  have pos: "list_all (\<lambda>r. 0 < total_strings_day r)
       (create_temporal_data example_to_datetime [temporal_row, unusable_row])"
    using t[of example_to_datetime "[temporal_row, unusable_row]", THEN conjunct2,
        THEN conjunct2, THEN conjunct2]
    by (simp add: list_all_iff)
  show ?thesis using len d1 d2 d3 pos by blast
qed

text \<open>
  C7. When the loop over the files leaves \<^verbatim>\<open>all_data\<close> empty, which covers an empty list
  of files, \<^verbatim>\<open>load_crowdin_data\<close> returns \<^verbatim>\<open>None\<close> after an \<^verbatim>\<open>st.error\<close> message and
  raises nothing. When no entry of any row yields a record, \<^verbatim>\<open>create_temporal_data\<close>
  returns the empty table.
\<close>

theorem no_data_gives_empty_result:
  "(fst (file_loop ([], []) json_files) = [] \<longrightarrow>
      fst (load_crowdin_data json_files) = Inr None \<and>
      (\<exists>text. last (snd (load_crowdin_data json_files)) = St_error text))
   \<and> (list_all (\<lambda>row. list_all (\<lambda>(d, s). day_record pd row d s = None)
                         (py_items (temporal_data row))) df \<longrightarrow>
      create_temporal_data pd df = [])"
proof -
  have 1: "fst (load_crowdin_data json_files) = Inr None \<and>
      (\<exists>text. last (snd (load_crowdin_data json_files)) = St_error text)"
    if "fst (file_loop ([], []) json_files) = []"
    using that by (cases "file_loop ([], []) json_files") (simp add: load_crowdin_data_def)
  have 2: "create_temporal_data pd df = []"
    if "list_all (\<lambda>row. list_all (\<lambda>(d, s). day_record pd row d s = None)
                         (py_items (temporal_data row))) df"
  proof -
    have "List.map_filter (\<lambda>(d, s). day_record pd row d s) kvs = []"
      if "list_all (\<lambda>(d, s). day_record pd row d s = None) kvs" for row kvs
      using that by (induction kvs) auto
    then have "concat (map (\<lambda>row. List.map_filter (\<lambda>(d, s). day_record pd row d s)
                                  (py_items (temporal_data row))) df) = []"
      using that by (induction df) auto
    then show ?thesis by (simp add: create_temporal_data_def row_loop_append)
  qed
  show ?thesis using 1 2 by blast
qed

theorem no_data_gives_empty_result_witness:
  "fst (file_loop ([], []) [(''broken.json'', None), (''empty.json'', Some (example_export (JObj [])))]) = []
   \<and> fst (load_crowdin_data [(''broken.json'', None), (''empty.json'', Some (example_export (JObj [])))])
       = Inr None
   \<and> fst (load_crowdin_data []) = Inr None
   \<and> list_all (\<lambda>row. list_all (\<lambda>(d, s). day_record example_to_datetime row d s = None)
                        (py_items (temporal_data row))) [unusable_row]
   \<and> create_temporal_data example_to_datetime [unusable_row] = []"
proof -
  have a: "fst (file_loop ([], []) [(''broken.json'', None), (''empty.json'', Some (example_export (JObj [])))]) = []"
    by (simp add: loader_eval)
  have b: "fst (file_loop ([], []) []) = []" by simp
  have c: "list_all (\<lambda>row. list_all (\<lambda>(d, s). day_record example_to_datetime row d s = None)
                        (py_items (temporal_data row))) [unusable_row]"
    by (simp add: temporal_eval)
  show ?thesis
    using a b c
      no_data_gives_empty_result[of "[(''broken.json'', None), (''empty.json'', Some (example_export (JObj [])))]"
        example_to_datetime "[unusable_row]"]
      no_data_gives_empty_result[of "[]" example_to_datetime "[]"]
    by simp
qed

text \<open>
  C8. A file that fails to parse changes nothing but the messages: the rows collected, and
  the result of \<^verbatim>\<open>load_crowdin_data\<close>, are those of the batch without the file, and a
  warning for the file is among the messages.
\<close>

theorem unparsed_file_is_skipped:
  "fst (file_loop ([], []) (fs1 @ (p, None) # fs2)) = fst (file_loop ([], []) (fs1 @ fs2))
   \<and> fst (load_crowdin_data (fs1 @ (p, None) # fs2)) = fst (load_crowdin_data (fs1 @ fs2))
   \<and> St_warning p \<in> set (snd (load_crowdin_data (fs1 @ (p, None) # fs2)))"
proof -
  let ?bad = "fs1 @ (p, None) # fs2"
  obtain rows msgs where g: "file_loop ([], []) (fs1 @ fs2) = (rows, msgs)"
    by (cases "file_loop ([], []) (fs1 @ fs2)")
  obtain msgs' where b: "file_loop ([], []) ?bad = (rows, msgs')"
    and w: "St_warning p \<in> set msgs'"
    using file_loop_skip[of fs1 p fs2] g by simp
  have 1: "fst (file_loop ([], []) ?bad) = fst (file_loop ([], []) (fs1 @ fs2))"
    by (simp add: g b)
  have 2: "fst (load_crowdin_data ?bad) = fst (load_crowdin_data (fs1 @ fs2))"
    using g b by (cases "fs1 @ fs2") (auto simp: load_crowdin_data_def split: option.splits)
  have 3: "St_warning p \<in> set (snd (load_crowdin_data ?bad))"
    using b w by (auto simp: load_crowdin_data_def split: option.splits)
  show ?thesis using 1 2 3 by blast
qed




text \<open>
  C10. In exact arithmetic, the two rates of every record of the temporal table add up
  to 100.
\<close>

theorem day_rates_sum_to_100:
  assumes "r \<in> set (create_temporal_data pd df)"
  shows "approval_rate_day r + intervention_rate_day r = 100"
proof -
  from in_create_temporal_data[OF assms] obtain row d s where
    "day_record pd row d s = Some r" by blast
  from day_record_Some[OF this] obtain a b c d e where
    pos: "0 < a + b + c + d + e"
    and ar: "approval_rate_day r = a / (a + b + c + d + e) * 100"
    and ir: "intervention_rate_day r = (b + c + d + e) / (a + b + c + d + e) * 100"
    by blast
  define t where "t = a + b + c + d + e"
  have "approval_rate_day r + intervention_rate_day r =
          a / t * 100 + (b + c + d + e) / t * 100"
    by (simp add: ar ir t_def)
  also have "\<dots> = (a + (b + c + d + e)) / t * 100"
    by (simp add: add_divide_distrib distrib_right)
  also have "a + (b + c + d + e) = t" by (simp add: t_def)
  also have "t / t * 100 = 100" using pos by (simp add: t_def)
  finally show ?thesis .
qed

theorem day_rates_sum_to_100_witness:
  "\<lparr> date = ''2024-01-15'', project_day = JStr ''docs'', language_day = JStr ''German'',
     method_day = ''AI'', approved_without_edit_day = JInt 8, total_strings_day = 10,
     approval_rate_day = 80, intervention_rate_day = 20, critical_edits = JInt 1 \<rparr>
     \<in> set (create_temporal_data example_to_datetime [temporal_row, unusable_row])
   \<and> approval_rate_day
       \<lparr> date = ''2024-01-15'', project_day = JStr ''docs'', language_day = JStr ''German'',
         method_day = ''AI'', approved_without_edit_day = JInt 8, total_strings_day = 10,
         approval_rate_day = 80, intervention_rate_day = 20, critical_edits = JInt 1 \<rparr>
     + intervention_rate_day
       \<lparr> date = ''2024-01-15'', project_day = JStr ''docs'', language_day = JStr ''German'',
         method_day = ''AI'', approved_without_edit_day = JInt 8, total_strings_day = 10,
         approval_rate_day = 80, intervention_rate_day = 20, critical_edits = JInt 1 \<rparr>
     = (100::real)"
proof -
  have m: "\<lparr> date = ''2024-01-15'', project_day = JStr ''docs'', language_day = JStr ''German'',
     method_day = ''AI'', approved_without_edit_day = JInt 8, total_strings_day = 10,
     approval_rate_day = 80, intervention_rate_day = 20, critical_edits = JInt 1 \<rparr>
     \<in> set (create_temporal_data example_to_datetime [temporal_row, unusable_row])"
    by (simp add: temporal_eval)
  show ?thesis using m day_rates_sum_to_100[OF m] by blast
qed

end
